theory Spec2Isabelle
  imports Complex_Main "HOL-Library.Multiset"
begin

section \<open>JavaScript values\<close>

text \<open>
  The handlers of the result store read an arbitrary parsed JSON body, so the model
  keeps JavaScript's dynamic values. A number is an exact rational, one of the two
  infinities (\<open>JSON.parse\<close> yields them on overflow) or NaN (the result of a failed
  \<open>Number(...)\<close> coercion). IEEE-754 rounding and the sign of zero are not modelled.
  An object is its list of own properties, each name once, as \<open>JSON.parse\<close> leaves
  them; a string is its list of UTF-8 bytes.
\<close>

datatype jsnum = NFin rat | NPosInf | NNegInf | NNaN

datatype json =
    JUndefined
  | JNull
  | JBool bool
  | JNum jsnum
  | JStr string
  | JArr "json list"
  | JObj "(string \<times> json) list"

text \<open>Truthiness, as \<open>!x\<close>, \<open>x || y\<close> and \<open>c ? a : b\<close> test it.\<close>

fun truthy :: "json \<Rightarrow> bool" where
  "truthy JUndefined = False"
| "truthy JNull = False"
| "truthy (JBool b) = b"
| "truthy (JNum n) = (n \<noteq> NFin 0 \<and> n \<noteq> NNaN)"
| "truthy (JStr s) = (s \<noteq> [])"
| "truthy (JArr xs) = True"
| "truthy (JObj kvs) = True"

text \<open>\<open>a || b\<close>\<close>

definition js_or :: "json \<Rightarrow> json \<Rightarrow> json" where
  "js_or a b = (if truthy a then a else b)"

text \<open>The elements of an array; none for a value that is no array.\<close>

fun items :: "json \<Rightarrow> json list" where
  "items (JArr xs) = xs"
| "items v = []"

fun nullish :: "json \<Rightarrow> bool" where
  "nullish JUndefined = True"
| "nullish JNull = True"
| "nullish v = False"

text \<open>
  \<open>o.k\<close> on a value that is neither null nor undefined, for a property name that no
  prototype defines (every name the handlers read is such a name): an object yields its
  own property, anything else yields undefined.
\<close>

fun get :: "json \<Rightarrow> string \<Rightarrow> json" where
  "get (JObj kvs) k = (case map_of kvs k of Some v \<Rightarrow> v | None \<Rightarrow> JUndefined)"
| "get v k = JUndefined"

text \<open>\<open>o?.k\<close>\<close>

definition opt_get :: "json \<Rightarrow> string \<Rightarrow> json" where
  "opt_get v k = (if nullish v then JUndefined else get v k)"

text \<open>\<open>Array.isArray(v)\<close>\<close>

fun isArray :: "json \<Rightarrow> bool" where
  "isArray (JArr xs) = True"
| "isArray v = False"

text \<open>\<open>n > 0\<close> on a number\<close>

fun gt_zero :: "jsnum \<Rightarrow> bool" where
  "gt_zero (NFin r) = (0 < r)"
| "gt_zero NPosInf = True"
| "gt_zero NNegInf = False"
| "gt_zero NNaN = False"

text \<open>The filter predicate \<open>typeof time === 'number' && time > 0\<close>\<close>

fun positive_time :: "json \<Rightarrow> bool" where
  "positive_time (JNum n) = gt_zero n"
| "positive_time v = False"

text \<open>
  A thrown exception, reduced to the two properties the catch blocks inspect:
  \<open>error.name\<close> and a numeric \<open>error.code\<close>.
\<close>

datatype js_error = JsError (err_name: string) (err_code: "int option")

definition TypeError :: js_error where
  "TypeError = JsError ''TypeError'' None"

text \<open>A \<open>Date\<close> object: milliseconds since the epoch, or Invalid Date.\<close>

datatype jsdate = ValidDate int | InvalidDate

text \<open>Sequencing of steps that may throw.\<close>

definition bindE :: "'e + 'a \<Rightarrow> ('a \<Rightarrow> 'e + 'b) \<Rightarrow> 'e + 'b" where
  "bindE m f = (case m of Inl e \<Rightarrow> Inl e | Inr x \<Rightarrow> f x)"

section \<open>The document schema\<close>

text \<open>
  \<open>testResultSchema\<close> of routes/testResults.ts: the four result sequences, the analysis,
  and two free-form values. The fields hold what the handler puts into
  \<open>testResultData\<close>; the predicates say when a value already has the type the schema
  declares for its path, and \<open>schema_typed\<close> that every value of a document has.
\<close>

record results_t =
  maleComputer :: json
  femaleSkincare :: json
  femaleComputer :: json
  maleSkincare :: json

record analysis_t =
  dScore :: jsnum
  biasType :: json
  biasLevel :: json
  biasDirection :: json
  d1Score :: jsnum
  d2Score :: jsnum
  d3Score :: jsnum
  d4Score :: jsnum

record testResultData =
  userId :: json
  testDate :: jsdate
  results :: results_t
  analysis :: analysis_t
  surveyResponses :: json
  deviceInfo :: json

text \<open>A stored document: the data, the identifier and the timestamps the store assigns.\<close>

record document =
  oid :: string
  content :: testResultData
  createdAt :: int
  updatedAt :: int

fun is_number :: "json \<Rightarrow> bool" where
  "is_number (JNum n) = (n \<noteq> NNaN)"
| "is_number v = False"

fun number_array :: "json \<Rightarrow> bool" where
  "number_array (JArr xs) = list_all is_number xs"
| "number_array v = False"

fun is_string :: "json \<Rightarrow> bool" where
  "is_string (JStr s) = True"
| "is_string v = False"

definition required_string :: "json \<Rightarrow> bool" where
  "required_string v \<longleftrightarrow> is_string v \<and> truthy v"

definition nullable_string :: "json \<Rightarrow> bool" where
  "nullable_string v \<longleftrightarrow> is_string v \<or> v = JNull"

definition is_date :: "jsdate \<Rightarrow> bool" where
  "is_date d \<longleftrightarrow> d \<noteq> InvalidDate"

definition not_NaN :: "jsnum \<Rightarrow> bool" where
  "not_NaN n \<longleftrightarrow> n \<noteq> NNaN"


section \<open>HTTP responses\<close>

text \<open>
  A response is its status and the fields of its JSON body that carry information:
  \<open>success\<close>, the \<open>error\<close> code and the \<open>data\<close>. The human-readable \<open>message\<close> and
  the diagnostic \<open>details\<close> are left out, as is everything written to the console.
\<close>

datatype 'a paged = Paged (page_data: "'a list") (page: jsnum) (limit: jsnum)
  (total: nat) (pages: jsnum)

datatype resp_data =
    NoData
  | Created string json jsdate int
  | Listing "document paged"
  | Single document
  | Counts nat nat

record response =
  status :: nat
  success :: bool
  error :: "string option"
  data :: resp_data

definition failure :: "nat \<Rightarrow> string \<Rightarrow> response" where
  "failure st code = \<lparr>status = st, success = False, error = Some code, data = NoData\<rparr>"

definition created :: "document \<Rightarrow> response" where
  "created doc =
     \<lparr>status = 201, success = True, error = None,
      data = Created (oid doc) (userId (content doc)) (testDate (content doc)) (createdAt doc)\<rparr>"

section \<open>The environment of a request\<close>

text \<open>
  What a handler reads from outside its own code: the connection state, the clock, the
  JavaScript runtime's conversions of values that are not already of the target type,
  and the behaviour of the object mapper and the database driver.
  \<^item> \<open>readyState\<close>: \<open>mongoose.connection.readyState\<close>;
  \<^item> \<open>now\<close>: the instant \<open>new Date()\<close> returns; \<open>save_time\<close>: the instant the store
    stamps on a written document;
  \<^item> \<open>new_Date v\<close>: \<open>new Date(v)\<close>, \<open>None\<close> when the conversion throws a TypeError;
  \<^item> \<open>string_to_number s\<close>: \<open>Number(s)\<close> on a string;
  \<^item> \<open>object_to_number v\<close>: \<open>Number(v)\<close> on an array or object, \<open>None\<close> when the
    conversion throws a TypeError;
  \<^item> \<open>cast_string\<close>, \<open>cast_numbers\<close>, \<open>cast_number\<close>, \<open>cast_date\<close>: what the
    object mapper makes of a value that does not have the type of its path (a String
    path, a path of type array of Number, a Number path, the Date path): the cast value,
    or \<open>None\<close> when the cast fails and \<open>save\<close> throws a ValidationError;
  \<^item> \<open>new_id\<close>: the identifier generated for a new document;
  \<^item> \<open>save_fault\<close>, \<open>find_fault\<close>: the error the driver throws on a write, on a read
    (\<open>None\<close>: the operation goes through);
  \<^item> \<open>start_of_day\<close>: local midnight of the current day, the value of \<open>today\<close> after
    \<open>today.setHours(0, 0, 0, 0)\<close>;
  \<^item> \<open>irregular_list coll query\<close>: the answer to a list request whose paging
    arguments are not positive integers or whose \<open>userId\<close> filter is not a string,
    where the outcome depends on floating-point arithmetic and on the driver.
\<close>

record env =
  readyState :: nat
  now :: int
  save_time :: int
  new_Date :: "json \<Rightarrow> jsdate option"
  string_to_number :: "string \<Rightarrow> jsnum"
  object_to_number :: "json \<Rightarrow> jsnum option"
  cast_string :: "json \<Rightarrow> json option"
  cast_numbers :: "json \<Rightarrow> json option"
  cast_number :: "jsnum \<Rightarrow> jsnum option"
  cast_date :: "jsdate \<Rightarrow> jsdate option"
  new_id :: string
  save_fault :: "js_error option"
  find_fault :: "js_error option"
  start_of_day :: int
  irregular_list :: "document list \<Rightarrow> json \<Rightarrow> response"

text \<open>\<open>Number(v)\<close>\<close>

fun Number_js :: "env \<Rightarrow> json \<Rightarrow> js_error + jsnum" where
  "Number_js E JUndefined = Inr NNaN"
| "Number_js E JNull = Inr (NFin 0)"
| "Number_js E (JBool b) = Inr (NFin (if b then 1 else 0))"
| "Number_js E (JNum n) = Inr n"
| "Number_js E (JStr s) = Inr (string_to_number E s)"
| "Number_js E v = (case object_to_number E v of None \<Rightarrow> Inl TypeError | Some n \<Rightarrow> Inr n)"

text \<open>\<open>Number(v) || 0\<close>\<close>

definition number_or_zero :: "env \<Rightarrow> json \<Rightarrow> js_error + jsnum" where
  "number_or_zero E v =
     bindE (Number_js E v) (\<lambda>n. Inr (if truthy (JNum n) then n else NFin 0))"

text \<open>\<open>testDate ? new Date(testDate) : new Date()\<close>\<close>

definition date_or_now :: "env \<Rightarrow> json \<Rightarrow> js_error + jsdate" where
  "date_or_now E v =
     (if truthy v
      then (case new_Date E v of None \<Rightarrow> Inl TypeError | Some d \<Rightarrow> Inr d)
      else Inr (ValidDate (now E)))"

section \<open>The store\<close>

text \<open>
  The collection is the list of its documents, oldest write first.
  \<open>new TestResult(data)\<close> casts the data path by path: a value that has the type of
  its path stays as it is, any other is cast or rejected by the object mapper; the two
  free-form paths take any value. The strict module imports its model from a file that
  is not among the sources; the schema of routes/testResults.ts stands for it as well.
\<close>

type_synonym db = "document list"

definition validation_error :: js_error where
  "validation_error = JsError ''ValidationError'' None"

definition cast_path :: "('a \<Rightarrow> bool) \<Rightarrow> ('a \<Rightarrow> 'a option) \<Rightarrow> 'a \<Rightarrow> js_error + 'a" where
  "cast_path typed cast v =
     (if typed v then Inr v
      else case cast v of None \<Rightarrow> Inl validation_error | Some v' \<Rightarrow> Inr v')"

definition mongoose_document :: "env \<Rightarrow> testResultData \<Rightarrow> js_error + testResultData" where
  "mongoose_document E d =
     bindE (cast_path required_string (cast_string E) (userId d)) (\<lambda>u.
     bindE (cast_path is_date (cast_date E) (testDate d)) (\<lambda>td.
     bindE (cast_path number_array (cast_numbers E) (maleComputer (results d))) (\<lambda>mc.
     bindE (cast_path number_array (cast_numbers E) (femaleSkincare (results d))) (\<lambda>fs.
     bindE (cast_path number_array (cast_numbers E) (femaleComputer (results d))) (\<lambda>fc.
     bindE (cast_path number_array (cast_numbers E) (maleSkincare (results d))) (\<lambda>ms.
     bindE (cast_path not_NaN (cast_number E) (dScore (analysis d))) (\<lambda>ds.
     bindE (cast_path nullable_string (cast_string E) (biasType (analysis d))) (\<lambda>bt.
     bindE (cast_path is_string (cast_string E) (biasLevel (analysis d))) (\<lambda>bl.
     bindE (cast_path is_string (cast_string E) (biasDirection (analysis d))) (\<lambda>bd.
     bindE (cast_path not_NaN (cast_number E) (d1Score (analysis d))) (\<lambda>s1.
     bindE (cast_path not_NaN (cast_number E) (d2Score (analysis d))) (\<lambda>s2.
     bindE (cast_path not_NaN (cast_number E) (d3Score (analysis d))) (\<lambda>s3.
     bindE (cast_path not_NaN (cast_number E) (d4Score (analysis d))) (\<lambda>s4.
       Inr \<lparr>userId = u, testDate = td,
            results = \<lparr>maleComputer = mc, femaleSkincare = fs,
                       femaleComputer = fc, maleSkincare = ms\<rparr>,
            analysis = \<lparr>dScore = ds, biasType = bt, biasLevel = bl, biasDirection = bd,
                        d1Score = s1, d2Score = s2, d3Score = s3, d4Score = s4\<rparr>,
            surveyResponses = surveyResponses d,
            deviceInfo = deviceInfo d\<rparr>))))))))))))))"

text \<open>
  \<open>.save()\<close>: the write fails when the document is rejected, when the driver fails,
  and with the duplicate-key code 11000 when the identifier is taken; otherwise the
  document is added with its identifier and timestamps.
\<close>

definition duplicate_key :: js_error where
  "duplicate_key = JsError ''MongoServerError'' (Some 11000)"

definition stored :: "env \<Rightarrow> testResultData \<Rightarrow> document" where
  "stored E d =
     \<lparr>oid = new_id E, content = d, createdAt = save_time E, updatedAt = save_time E\<rparr>"

definition save :: "env \<Rightarrow> db \<Rightarrow> testResultData \<Rightarrow> js_error + (document \<times> db)" where
  "save E coll d =
     bindE (mongoose_document E d) (\<lambda>d'.
       case save_fault E of
         Some e \<Rightarrow> Inl e
       | None \<Rightarrow>
           if new_id E \<in> set (map oid coll) then Inl duplicate_key
           else Inr (stored E d', coll @ [stored E d']))"

text \<open>\<open>TestResult.findById(id)\<close>\<close>

definition findById :: "env \<Rightarrow> db \<Rightarrow> string \<Rightarrow> js_error + document option" where
  "findById E coll i =
     (case find_fault E of
        Some e \<Rightarrow> Inl e
      | None \<Rightarrow> Inr (find (\<lambda>d. oid d = i) coll))"

section \<open>Create, strict variant\<close>

text \<open>
  \<open>router.post('/')\<close> of the file under models/TestResult.ts. The body of the
  \<open>try\<close> block either responds or throws; the store travels with both outcomes, since
  an exception after \<open>save()\<close> leaves the written document behind.
\<close>

definition requiredArrays :: "string list" where
  "requiredArrays = [''maleComputer'', ''femaleSkincare'', ''femaleComputer'', ''maleSkincare'']"

text \<open>The \<open>for\<close> loop over \<open>requiredArrays\<close>: the first name whose value is no array.\<close>

fun first_non_array :: "json \<Rightarrow> string list \<Rightarrow> string option" where
  "first_non_array r [] = None"
| "first_non_array r (n # ns) =
     (if \<not> isArray (get r n) then Some n else first_non_array r ns)"

definition prepare_strict :: "env \<Rightarrow> json \<Rightarrow> js_error + testResultData" where
  "prepare_strict E body =
     (let res = get body ''results''; ana = get body ''analysis'' in
      bindE (date_or_now E (get body ''testDate'')) (\<lambda>td.
      bindE (number_or_zero E (get ana ''dScore'')) (\<lambda>ds.
      bindE (number_or_zero E (get ana ''d1Score'')) (\<lambda>s1.
      bindE (number_or_zero E (get ana ''d2Score'')) (\<lambda>s2.
      bindE (number_or_zero E (get ana ''d3Score'')) (\<lambda>s3.
      bindE (number_or_zero E (get ana ''d4Score'')) (\<lambda>s4.
        Inr \<lparr>userId = get body ''userId'',
             testDate = td,
             results = \<lparr>maleComputer = js_or (get res ''maleComputer'') (JArr []),
                        femaleSkincare = js_or (get res ''femaleSkincare'') (JArr []),
                        femaleComputer = js_or (get res ''femaleComputer'') (JArr []),
                        maleSkincare = js_or (get res ''maleSkincare'') (JArr [])\<rparr>,
             analysis = \<lparr>dScore = ds,
                         biasType = js_or (get ana ''biasType'') JNull,
                         biasLevel = js_or (get ana ''biasLevel'') (JStr []),
                         biasDirection = js_or (get ana ''biasDirection'') (JStr []),
                         d1Score = s1, d2Score = s2, d3Score = s3, d4Score = s4\<rparr>,
             surveyResponses = js_or (get body ''surveyResponses'') (JObj []),
             deviceInfo = js_or (get body ''deviceInfo'') (JObj [])\<rparr>)))))))"

definition post_strict_try :: "env \<Rightarrow> db \<Rightarrow> json \<Rightarrow> (js_error + response) \<times> db" where
  "post_strict_try E coll body =
     (if nullish body then (Inl TypeError, coll)
      else if \<not> truthy (get body ''userId'') then
        (Inr (failure 400 ''MISSING_USER_ID''), coll)
      else if \<not> truthy (get body ''results'') then
        (Inr (failure 400 ''MISSING_RESULTS''), coll)
      else if \<not> truthy (get body ''analysis'') then
        (Inr (failure 400 ''MISSING_ANALYSIS''), coll)
      else
        case first_non_array (get body ''results'') requiredArrays of
          Some n \<Rightarrow> (Inr (failure 400 ''INVALID_RESULTS_STRUCTURE''), coll)
        | None \<Rightarrow>
            (case bindE (prepare_strict E body) (save E coll) of
               Inl e \<Rightarrow> (Inl e, coll)
             | Inr (saved, coll') \<Rightarrow>
                 (case findById E coll' (oid saved) of
                    Inl e \<Rightarrow> (Inl e, coll')
                  | Inr verifyResult \<Rightarrow> (Inr (created saved), coll'))))"

definition catch_strict :: "js_error \<Rightarrow> response" where
  "catch_strict e =
     (if err_code e = Some 11000 then failure 409 ''DUPLICATE_ENTRY''
      else if err_name e = ''ValidationError'' then failure 400 ''VALIDATION_ERROR''
      else if err_name e = ''MongoNetworkError'' \<or> err_name e = ''MongooseServerSelectionError''
        then failure 503 ''ATLAS_CONNECTION_ERROR''
      else failure 500 ''INTERNAL_SERVER_ERROR'')"

definition post_strict :: "env \<Rightarrow> db \<Rightarrow> json \<Rightarrow> response \<times> db" where
  "post_strict E coll body =
     (case post_strict_try E coll body of
        (Inr r, coll') \<Rightarrow> (r, coll')
      | (Inl e, coll') \<Rightarrow> (catch_strict e, coll'))"

section \<open>Create, permissive variant\<close>

text \<open>
  \<open>router.post('/')\<close> of routes/testResults.ts, the module the server entry point
  mounts at \<open>/api/test-results\<close>.
\<close>

text \<open>
  \<open>(v || []).filter((time) => typeof time === 'number' && time > 0)\<close>: a truthy value
  that is no array has no \<open>filter\<close> method, and the call throws a TypeError.
\<close>

definition filter_times :: "json \<Rightarrow> js_error + json" where
  "filter_times v =
     (case js_or v (JArr []) of
        JArr xs \<Rightarrow> Inr (JArr (filter positive_time xs))
      | _ \<Rightarrow> Inl TypeError)"

text \<open>The default of \<open>biasLevel\<close>, a label that reads "no or very weak bias".\<close>

definition default_biasLevel :: string where
  "default_biasLevel =
     [CHR 0xE7, CHR 0x84, CHR 0xA1, CHR 0xE6, CHR 0x88, CHR 0x96, CHR 0xE6, CHR 0xA5, CHR 0xB5,
      CHR 0xE5, CHR 0xBC, CHR 0xB1, CHR 0xE5, CHR 0x81, CHR 0x8F, CHR 0xE8, CHR 0xA6, CHR 0x8B]"

definition prepare_permissive :: "env \<Rightarrow> json \<Rightarrow> js_error + testResultData" where
  "prepare_permissive E body =
     (let res = get body ''results''; ana = get body ''analysis'' in
      bindE (date_or_now E (get body ''testDate'')) (\<lambda>td.
      bindE (filter_times (opt_get res ''maleComputer'')) (\<lambda>mc.
      bindE (filter_times (opt_get res ''femaleSkincare'')) (\<lambda>fs.
      bindE (filter_times (opt_get res ''femaleComputer'')) (\<lambda>fc.
      bindE (filter_times (opt_get res ''maleSkincare'')) (\<lambda>ms.
      bindE (number_or_zero E (opt_get ana ''dScore'')) (\<lambda>ds.
      bindE (number_or_zero E (opt_get ana ''d1Score'')) (\<lambda>s1.
      bindE (number_or_zero E (opt_get ana ''d2Score'')) (\<lambda>s2.
      bindE (number_or_zero E (opt_get ana ''d3Score'')) (\<lambda>s3.
      bindE (number_or_zero E (opt_get ana ''d4Score'')) (\<lambda>s4.
        Inr \<lparr>userId = get body ''userId'',
             testDate = td,
             results = \<lparr>maleComputer = mc, femaleSkincare = fs,
                        femaleComputer = fc, maleSkincare = ms\<rparr>,
             analysis = \<lparr>dScore = ds,
                         biasType = js_or (opt_get ana ''biasType'') JNull,
                         biasLevel = js_or (opt_get ana ''biasLevel'') (JStr default_biasLevel),
                         biasDirection = js_or (opt_get ana ''biasDirection'') (JStr []),
                         d1Score = s1, d2Score = s2, d3Score = s3, d4Score = s4\<rparr>,
             surveyResponses = js_or (get body ''surveyResponses'') (JObj []),
             deviceInfo = js_or (get body ''deviceInfo'') (JObj [])\<rparr>)))))))))))"

text \<open>
  The read-back after \<open>save()\<close> sits in a \<open>try\<close> of its own whose \<open>catch\<close> only
  logs, so it has no part in the outcome.
\<close>

definition post_permissive_try :: "env \<Rightarrow> db \<Rightarrow> json \<Rightarrow> (js_error + response) \<times> db" where
  "post_permissive_try E coll body =
     (if readyState E \<noteq> 1 then (Inr (failure 503 ''DATABASE_NOT_CONNECTED''), coll)
      else if nullish body then (Inl TypeError, coll)
      else if \<not> truthy (get body ''userId'') then
        (Inr (failure 400 ''MISSING_USER_ID''), coll)
      else
        case bindE (prepare_permissive E body) (save E coll) of
          Inl e \<Rightarrow> (Inl e, coll)
        | Inr (saved, coll') \<Rightarrow> (Inr (created saved), coll'))"

definition catch_permissive :: "js_error \<Rightarrow> response" where
  "catch_permissive e =
     (if err_name e = ''ValidationError'' then failure 400 ''VALIDATION_ERROR''
      else if err_code e = Some 11000 then failure 409 ''DUPLICATE_ENTRY''
      else if err_name e = ''MongoNetworkError'' \<or> err_name e = ''MongooseServerSelectionError''
        then failure 503 ''ATLAS_CONNECTION_ERROR''
      else failure 500 ''ATLAS_SAVE_ERROR'')"

definition post_permissive :: "env \<Rightarrow> db \<Rightarrow> json \<Rightarrow> response \<times> db" where
  "post_permissive E coll body =
     (case post_permissive_try E coll body of
        (Inr r, coll') \<Rightarrow> (r, coll')
      | (Inl e, coll') \<Rightarrow> (catch_permissive e, coll'))"

section \<open>Reading: list, get by id, count\<close>



fun pos_int :: "jsnum \<Rightarrow> bool" where
  "pos_int (NFin r) = (0 < r \<and> of_int \<lfloor>r\<rfloor> = r)"
| "pos_int n = False"

fun to_nat :: "jsnum \<Rightarrow> nat" where
  "to_nat (NFin r) = nat \<lfloor>r\<rfloor>"
| "to_nat n = 0"




text \<open>\<open>Math.ceil(total / limit)\<close> for a positive integer \<open>limit\<close>\<close>

definition page_count :: "nat \<Rightarrow> jsnum \<Rightarrow> jsnum" where
  "page_count n l = NFin (of_int \<lceil>of_nat n / of_nat (to_nat l) :: rat\<rceil>)"






section \<open>A sample environment and sample payloads\<close>

text \<open>
  A connected store without faults, whose runtime conversions fail on every value that
  is not already of the target type.
\<close>

definition sample_env :: env where
  "sample_env =
     \<lparr>readyState = 1, now = 1000, save_time = 1001,
      new_Date = (\<lambda>v. Some InvalidDate),
      string_to_number = (\<lambda>s. NNaN),
      object_to_number = (\<lambda>v. Some NNaN),
      cast_string = (\<lambda>v. None), cast_numbers = (\<lambda>v. None),
      cast_number = (\<lambda>n. None), cast_date = (\<lambda>d. None),
      new_id = ''id1'',
      save_fault = None, find_fault = None,
      start_of_day = 0,
      irregular_list = (\<lambda>coll q. failure 500 ''QUERY_ERROR'')\<rparr>"


text \<open>A payload whose \<open>results\<close> lack \<open>maleSkincare\<close>.\<close>

definition payload_without_maleSkincare :: json where
  "payload_without_maleSkincare =
     JObj [(''userId'', JStr ''u1''),
           (''results'', JObj [(''maleComputer'', JArr [JNum (NFin 500)]),
                              (''femaleSkincare'', JArr []),
                              (''femaleComputer'', JArr [])]),
           (''analysis'', JObj [(''dScore'', JNum (NFin 1))])]"

section \<open>The submission client\<close>

text \<open>
  frontend/src/utils/api.ts. The network is a function from the request to what
  \<open>fetch\<close> does with it: it rejects with a TypeError, or it resolves to a response
  with a status, a status text and a body. The client returns the requests it issued, in
  order, and either the parsed result or the message of the error it throws.
\<close>

datatype request = GET_health | GET_test_atlas | POST_test_results json

datatype fetch_result = NetworkError string | Response nat string string

text \<open>
  What the client reads from the browser:
  \<^item> \<open>stored_userId\<close>: \<open>localStorage.getItem('userId')\<close>; \<open>fresh_userId\<close>: the
    identifier built from the clock and random bits when none is stored;
  \<^item> \<open>iso_now\<close>: \<open>new Date().toISOString()\<close>; \<open>device_info\<close>: the collected metadata;
  \<^item> \<open>fetch\<close>: the network; \<open>JSON_parse\<close>: \<open>JSON.parse\<close>, \<open>None\<close> on a syntax error;
  \<^item> \<open>to_text\<close>: the string a template literal makes of a value that is no string;
  \<^item> \<open>null_read_message v k\<close>: the engine's message for reading the property \<open>k\<close>
    of \<open>v\<close>, which is null or undefined; \<open>syntax_error_message\<close>: its message for a
    body that is not JSON.
\<close>

record client_env =
  stored_userId :: "string option"
  fresh_userId :: string
  iso_now :: string
  device_info :: json
  fetch :: "request \<Rightarrow> fetch_result"
  JSON_parse :: "string \<Rightarrow> json option"
  to_text :: "json \<Rightarrow> string"
  null_read_message :: "json \<Rightarrow> string \<Rightarrow> string"
  syntax_error_message :: string

text \<open>An exception inside \<open>saveTestResults\<close>: a TypeError or another Error, with its message.\<close>

datatype thrown = ThrownTypeError string | ThrownError string

text \<open>\<open>response.ok\<close>\<close>

definition response_ok :: "nat \<Rightarrow> bool" where
  "response_ok st \<longleftrightarrow> 200 \<le> st \<and> st \<le> 299"

text \<open>\<open>s.includes(p)\<close>\<close>

fun js_includes :: "string \<Rightarrow> string \<Rightarrow> bool" where
  "js_includes [] p = (p = [])"
| "js_includes (c # cs) p = (take (length p) (c # cs) = p \<or> js_includes cs p)"

text \<open>The decimal digits of a status code, as \<open>${response.status}\<close> writes them.\<close>

fun show_nat :: "nat \<Rightarrow> string" where
  "show_nat n =
     (if n < 10 then [''0123456789'' ! n]
      else show_nat (n div 10) @ [''0123456789'' ! (n mod 10)])"

text \<open>A value inside a template literal.\<close>

definition text_of :: "client_env \<Rightarrow> json \<Rightarrow> string" where
  "text_of C v = (case v of JStr s \<Rightarrow> s | _ \<Rightarrow> to_text C v)"

text \<open>The service cannot be reached.\<close>

definition api_unreachable_message :: string where
  "api_unreachable_message =
     [CHR 0xE5, CHR 0xBE, CHR 0x8C, CHR 0xE7, CHR 0xAB, CHR 0xAF] @
     '' API '' @
     [CHR 0xE6, CHR 0x9C, CHR 0x8D, CHR 0xE5, CHR 0x8B, CHR 0x99, CHR 0xE7, CHR 0x84, CHR 0xA1,
      CHR 0xE6, CHR 0xB3, CHR 0x95, CHR 0xE9, CHR 0x80, CHR 0xA3, CHR 0xE6, CHR 0x8E, CHR 0xA5,
      CHR 0xEF, CHR 0xBC, CHR 0x8C, CHR 0xE8, CHR 0xAB, CHR 0x8B, CHR 0xE7, CHR 0xA2, CHR 0xBA,
      CHR 0xE8, CHR 0xAA, CHR 0x8D, CHR 0xE4, CHR 0xBC, CHR 0xBA, CHR 0xE6, CHR 0x9C, CHR 0x8D,
      CHR 0xE5, CHR 0x99, CHR 0xA8, CHR 0xE6, CHR 0x98, CHR 0xAF, CHR 0xE5, CHR 0x90, CHR 0xA6,
      CHR 0xE5, CHR 0x9C, CHR 0xA8] @
     '' http://localhost:5000 '' @
     [CHR 0xE9, CHR 0x81, CHR 0x8B, CHR 0xE8, CHR 0xA1, CHR 0x8C]"

text \<open>The storage cannot be reached.\<close>

definition atlas_unavailable_message :: string where
  "atlas_unavailable_message =
     ''MongoDB Atlas '' @
     [CHR 0xE7, CHR 0x84, CHR 0xA1, CHR 0xE6, CHR 0xB3, CHR 0x95, CHR 0xE9, CHR 0x80, CHR 0xA3,
      CHR 0xE6, CHR 0x8E, CHR 0xA5, CHR 0xEF, CHR 0xBC, CHR 0x8C, CHR 0xE8, CHR 0xAB, CHR 0x8B,
      CHR 0xE6, CHR 0xAA, CHR 0xA2, CHR 0xE6, CHR 0x9F, CHR 0xA5, CHR 0xEF, CHR 0xBC, CHR 0x9A,
      CHR 0x0A, CHR 0xE2, CHR 0x80, CHR 0xA2] @
     '' '' @
     [CHR 0xE7, CHR 0xB6, CHR 0xB2, CHR 0xE8, CHR 0xB7, CHR 0xAF, CHR 0xE9, CHR 0x80, CHR 0xA3,
      CHR 0xE6, CHR 0x8E, CHR 0xA5, CHR 0x0A, CHR 0xE2, CHR 0x80, CHR 0xA2] @
     '' Atlas IP '' @
     [CHR 0xE7, CHR 0x99, CHR 0xBD, CHR 0xE5, CHR 0x90, CHR 0x8D, CHR 0xE5, CHR 0x96, CHR 0xAE,
      CHR 0xE8, CHR 0xA8, CHR 0xAD, CHR 0xE5, CHR 0xAE, CHR 0x9A, CHR 0x0A, CHR 0xE2, CHR 0x80,
      CHR 0xA2] @
     '' '' @
     [CHR 0xE5, CHR 0x8F, CHR 0xA2, CHR 0xE9, CHR 0x9B, CHR 0x86, CHR 0xE7, CHR 0x8B, CHR 0x80,
      CHR 0xE6, CHR 0x85, CHR 0x8B]"

text \<open>Status 400: validation failed.\<close>

definition validation_prefix :: string where
  "validation_prefix =
     [CHR 0xE8, CHR 0xB3, CHR 0x87, CHR 0xE6, CHR 0x96, CHR 0x99, CHR 0xE9, CHR 0xA9, CHR 0x97,
      CHR 0xE8, CHR 0xAD, CHR 0x89, CHR 0xE5, CHR 0xA4, CHR 0xB1, CHR 0xE6, CHR 0x95, CHR 0x97] @
     '': ''"

definition validation_default :: string where
  "validation_default =
     [CHR 0xE8, CHR 0xAB, CHR 0x8B, CHR 0xE6, CHR 0xAA, CHR 0xA2, CHR 0xE6, CHR 0x9F, CHR 0xA5,
      CHR 0xE8, CHR 0xB3, CHR 0x87, CHR 0xE6, CHR 0x96, CHR 0x99, CHR 0xE6, CHR 0xA0, CHR 0xBC,
      CHR 0xE5, CHR 0xBC, CHR 0x8F]"

text \<open>Status 409: duplicate.\<close>

definition duplicate_prefix :: string where
  "duplicate_prefix =
     [CHR 0xE9, CHR 0x87, CHR 0x8D, CHR 0xE8, CHR 0xA4, CHR 0x87, CHR 0xE8, CHR 0xB3, CHR 0x87,
      CHR 0xE6, CHR 0x96, CHR 0x99] @
     '': ''"

definition duplicate_default :: string where
  "duplicate_default =
     [CHR 0xE6, CHR 0xAD, CHR 0xA4, CHR 0xE6, CHR 0xB8, CHR 0xAC, CHR 0xE8, CHR 0xA9, CHR 0xA6,
      CHR 0xE7, CHR 0xB5, CHR 0x90, CHR 0xE6, CHR 0x9E, CHR 0x9C, CHR 0xE5, CHR 0xB7, CHR 0xB2,
      CHR 0xE5, CHR 0xAD, CHR 0x98, CHR 0xE5, CHR 0x9C, CHR 0xA8]"

text \<open>Status 503: storage unavailable.\<close>

definition unavailable_prefix :: string where
  "unavailable_prefix =
     ''Atlas '' @
     [CHR 0xE9, CHR 0x80, CHR 0xA3, CHR 0xE6, CHR 0x8E, CHR 0xA5, CHR 0xE5, CHR 0xA4, CHR 0xB1,
      CHR 0xE6, CHR 0x95, CHR 0x97] @
     '': ''"

definition unavailable_default :: string where
  "unavailable_default =
     ''MongoDB Atlas '' @
     [CHR 0xE6, CHR 0x9C, CHR 0x8D, CHR 0xE5, CHR 0x8B, CHR 0x99, CHR 0xE4, CHR 0xB8, CHR 0x8D,
      CHR 0xE5, CHR 0x8F, CHR 0xAF, CHR 0xE7, CHR 0x94, CHR 0xA8]"

text \<open>Any other status.\<close>

definition other_prefix :: string where
  "other_prefix =
     ''Atlas '' @
     [CHR 0xE5, CHR 0x84, CHR 0xB2, CHR 0xE5, CHR 0xAD, CHR 0x98, CHR 0xE9, CHR 0x8C, CHR 0xAF,
      CHR 0xE8, CHR 0xAA, CHR 0xA4] @
     '' (''"

text \<open>The prefix the outer catch puts before the message of an error it rethrows.\<close>

definition save_failed_prefix :: string where
  "save_failed_prefix =
     ''Atlas '' @
     [CHR 0xE5, CHR 0x84, CHR 0xB2, CHR 0xE5, CHR 0xAD, CHR 0x98, CHR 0xE5, CHR 0xA4, CHR 0xB1,
      CHR 0xE6, CHR 0x95, CHR 0x97] @
     '': ''"

text \<open>The message for a failed fetch.\<close>

definition network_failure_message :: string where
  "network_failure_message =
     [CHR 0xE7, CHR 0xB6, CHR 0xB2, CHR 0xE8, CHR 0xB7, CHR 0xAF, CHR 0xE9, CHR 0x80, CHR 0xA3,
      CHR 0xE6, CHR 0x8E, CHR 0xA5, CHR 0xE5, CHR 0xA4, CHR 0xB1, CHR 0xE6, CHR 0x95, CHR 0x97,
      CHR 0xEF, CHR 0xBC, CHR 0x8C, CHR 0xE8, CHR 0xAB, CHR 0x8B, CHR 0xE6, CHR 0xAA, CHR 0xA2,
      CHR 0xE6, CHR 0x9F, CHR 0xA5, CHR 0xEF, CHR 0xBC, CHR 0x9A, CHR 0x0A, CHR 0xE2, CHR 0x80,
      CHR 0xA2] @
     '' '' @
     [CHR 0xE5, CHR 0xBE, CHR 0x8C, CHR 0xE7, CHR 0xAB, CHR 0xAF, CHR 0xE4, CHR 0xBC, CHR 0xBA,
      CHR 0xE6, CHR 0x9C, CHR 0x8D, CHR 0xE5, CHR 0x99, CHR 0xA8, CHR 0xE6, CHR 0x98, CHR 0xAF,
      CHR 0xE5, CHR 0x90, CHR 0xA6, CHR 0xE5, CHR 0x9C, CHR 0xA8] @
     '' http://localhost:5000 '' @
     [CHR 0xE9, CHR 0x81, CHR 0x8B, CHR 0xE8, CHR 0xA1, CHR 0x8C, CHR 0x0A, CHR 0xE2, CHR 0x80,
      CHR 0xA2] @
     '' '' @
     [CHR 0xE6, CHR 0x9C, CHR 0xAC, CHR 0xE5, CHR 0x9C, CHR 0xB0, CHR 0xE7, CHR 0xB6, CHR 0xB2,
      CHR 0xE8, CHR 0xB7, CHR 0xAF, CHR 0xE9, CHR 0x80, CHR 0xA3, CHR 0xE6, CHR 0x8E, CHR 0xA5,
      CHR 0xE6, CHR 0x98, CHR 0xAF, CHR 0xE5, CHR 0x90, CHR 0xA6, CHR 0xE6, CHR 0xAD, CHR 0xA3,
      CHR 0xE5, CHR 0xB8, CHR 0xB8]"

text \<open>
  \<open>checkApiHealth\<close>: one GET; true when the response is ok and its body parses, false
  otherwise and on every exception.
\<close>

definition checkApiHealth :: "client_env \<Rightarrow> bool" where
  "checkApiHealth C =
     (case fetch C GET_health of
        NetworkError m \<Rightarrow> False
      | Response st stt body \<Rightarrow>
          if response_ok st then (case JSON_parse C body of None \<Rightarrow> False | Some r \<Rightarrow> True)
          else False)"

text \<open>
  \<open>testAtlasConnection\<close>: one GET; on an ok response it reads \<open>result.database\<close>, which
  throws when the body parses to null, and the \<open>catch\<close> returns false.
\<close>

definition testAtlasConnection :: "client_env \<Rightarrow> bool" where
  "testAtlasConnection C =
     (case fetch C GET_test_atlas of
        NetworkError m \<Rightarrow> False
      | Response st stt body \<Rightarrow>
          if response_ok st
          then (case JSON_parse C body of None \<Rightarrow> False | Some r \<Rightarrow> \<not> nullish r)
          else False)"

text \<open>
  The payload. Reading \<open>data.testResults.maleComputer\<close> throws when \<open>data\<close> or
  \<open>data.testResults\<close> is null or undefined; the summary that is logged next reads the
  \<open>length\<close> of each of the four sequences and throws when one of them is.
\<close>

definition build_payload :: "client_env \<Rightarrow> string \<Rightarrow> json \<Rightarrow> thrown + json" where
  "build_payload C uid d =
     (if nullish d then Inl (ThrownTypeError (null_read_message C d ''testResults''))
      else if nullish (get d ''testResults'') then
        Inl (ThrownTypeError (null_read_message C (get d ''testResults'') ''maleComputer''))
      else
        let tr = get d ''testResults'' in
        if nullish (get tr ''maleComputer'') then
          Inl (ThrownTypeError (null_read_message C (get tr ''maleComputer'') ''length''))
        else if nullish (get tr ''femaleSkincare'') then
          Inl (ThrownTypeError (null_read_message C (get tr ''femaleSkincare'') ''length''))
        else if nullish (get tr ''femaleComputer'') then
          Inl (ThrownTypeError (null_read_message C (get tr ''femaleComputer'') ''length''))
        else if nullish (get tr ''maleSkincare'') then
          Inl (ThrownTypeError (null_read_message C (get tr ''maleSkincare'') ''length''))
        else
          Inr (JObj
            [(''userId'', JStr uid),
             (''testDate'', JStr (iso_now C)),
             (''results'', JObj [(''maleComputer'', get tr ''maleComputer''),
                                (''femaleSkincare'', get tr ''femaleSkincare''),
                                (''femaleComputer'', get tr ''femaleComputer''),
                                (''maleSkincare'', get tr ''maleSkincare'')]),
             (''analysis'', JObj [(''dScore'', get d ''dScore''),
                                 (''biasType'', get d ''biasType''),
                                 (''biasLevel'', get d ''biasLevel''),
                                 (''biasDirection'', get d ''biasDirection''),
                                 (''d1Score'', get d ''d1Score''),
                                 (''d2Score'', get d ''d2Score''),
                                 (''d3Score'', get d ''d3Score''),
                                 (''d4Score'', get d ''d4Score'')]),
             (''surveyResponses'', js_or (get d ''surveyResponses'') (JObj [])),
             (''deviceInfo'', device_info C)]))"

text \<open>
  The branch \<open>if (!response.ok)\<close>: the body is parsed, or wrapped as
  \<open>{ message: errorText }\<close> when it is not JSON; reading \<open>errorData.message\<close> throws
  when the body parsed to null.
\<close>

definition status_error :: "client_env \<Rightarrow> nat \<Rightarrow> string \<Rightarrow> string \<Rightarrow> thrown" where
  "status_error C st stt body =
     (let errorData = (case JSON_parse C body of
                         Some v \<Rightarrow> v
                       | None \<Rightarrow> JObj [(''message'', JStr body)])
      in if nullish errorData then ThrownTypeError (null_read_message C errorData ''message'')
         else
           let m = get errorData ''message'' in
           if st = 400 then
             ThrownError (validation_prefix @ text_of C (js_or m (JStr validation_default)))
           else if st = 409 then
             ThrownError (duplicate_prefix @ text_of C (js_or m (JStr duplicate_default)))
           else if st = 503 then
             ThrownError (unavailable_prefix @ text_of C (js_or m (JStr unavailable_default)))
           else
             ThrownError (other_prefix @ show_nat st @ ''): '' @ text_of C (js_or m (JStr stt))))"

text \<open>
  The start of the message that \<open>status_error\<close> gives a status, and the four kinds of
  status it tells apart (0 stands for every status other than 400, 409 and 503).
\<close>

definition status_prefix :: "nat \<Rightarrow> string" where
  "status_prefix st =
     (if st = 400 then validation_prefix
      else if st = 409 then duplicate_prefix
      else if st = 503 then unavailable_prefix
      else other_prefix @ show_nat st @ ''): '')"

definition status_kind :: "nat \<Rightarrow> nat" where
  "status_kind st = (if st = 400 \<or> st = 409 \<or> st = 503 then st else 0)"

text \<open>The outer \<open>catch\<close>: every exception is an Error, and is rethrown with a new message.\<close>

fun rethrow :: "thrown \<Rightarrow> string" where
  "rethrow (ThrownTypeError m) =
     (if js_includes m ''fetch'' then network_failure_message else save_failed_prefix @ m)"
| "rethrow (ThrownError m) = save_failed_prefix @ m"

text \<open>
  The body of the \<open>try\<close> block of \<open>saveTestResults\<close>, from the first probe on: the
  requests issued, and the result or the exception.
\<close>

definition submit_steps :: "client_env \<Rightarrow> json \<Rightarrow> request list \<times> (thrown + json)" where
  "submit_steps C payload =
     (if \<not> checkApiHealth C then
        ([GET_health], Inl (ThrownError api_unreachable_message))
      else if \<not> testAtlasConnection C then
        ([GET_health, GET_test_atlas], Inl (ThrownError atlas_unavailable_message))
      else
        ([GET_health, GET_test_atlas, POST_test_results payload],
         case fetch C (POST_test_results payload) of
           NetworkError m \<Rightarrow> Inl (ThrownTypeError m)
         | Response st stt body \<Rightarrow>
             if \<not> response_ok st then Inl (status_error C st stt body)
             else
               (case JSON_parse C body of
                  None \<Rightarrow> Inl (ThrownError (syntax_error_message C))
                | Some result \<Rightarrow>
                    if nullish result then
                      Inl (ThrownTypeError (null_read_message C result ''success''))
                    else Inr result)))"

text \<open>The identifier in use: the stored one, or a fresh one when none (or an empty one) is stored.\<close>

definition current_userId :: "client_env \<Rightarrow> string" where
  "current_userId C =
     (case stored_userId C of
        None \<Rightarrow> fresh_userId C
      | Some u \<Rightarrow> if u = [] then fresh_userId C else u)"

record submission =
  requests :: "request list"
  userId_after :: string
  outcome :: "string + json"

definition saveTestResults :: "client_env \<Rightarrow> json \<Rightarrow> submission" where
  "saveTestResults C d =
     (let uid = current_userId C in
      case build_payload C uid d of
        Inl t \<Rightarrow> \<lparr>requests = [], userId_after = uid, outcome = Inl (rethrow t)\<rparr>
      | Inr payload \<Rightarrow>
          (case submit_steps C payload of
             (reqs, Inl t) \<Rightarrow> \<lparr>requests = reqs, userId_after = uid, outcome = Inl (rethrow t)\<rparr>
           | (reqs, Inr r) \<Rightarrow> \<lparr>requests = reqs, userId_after = uid, outcome = Inr r\<rparr>))"

text \<open>A sample network: both probes answer 200 with a JSON body; the create answers as given.\<close>

definition sample_client :: "fetch_result \<Rightarrow> fetch_result \<Rightarrow> fetch_result \<Rightarrow> client_env" where
  "sample_client h a p =
     \<lparr>stored_userId = Some ''user_1'', fresh_userId = ''user_2'',
      iso_now = ''2025-05-26T00:00:00.000Z'', device_info = JObj [],
      fetch = (\<lambda>r. case r of GET_health \<Rightarrow> h | GET_test_atlas \<Rightarrow> a
                              | POST_test_results b \<Rightarrow> p),
      JSON_parse = (\<lambda>s. if s = ''{}'' then Some (JObj []) else if s = ''null'' then Some JNull else None),
      to_text = (\<lambda>v. ''[object Object]''),
      null_read_message = (\<lambda>v k. ''Cannot read properties of null''),
      syntax_error_message = ''Unexpected token''\<rparr>"

definition sample_data :: json where
  "sample_data =
     JObj [(''testResults'', JObj [(''maleComputer'', JArr [JNum (NFin 500), JNum (NFin 620)]),
                                  (''femaleSkincare'', JArr [JNum (NFin 480)]),
                                  (''femaleComputer'', JArr []),
                                  (''maleSkincare'', JArr [])]),
           (''dScore'', JNum (NFin (35 / 100))),
           (''biasType'', JStr ''male-tech''),
           (''biasLevel'', JStr ''weak'')]"

section \<open>The deployed create endpoint\<close>

text \<open>
  The server entry point imports \<open>./routes/testResults\<close> and mounts that router at
  \<open>/api/test-results\<close>; the strict module is not mounted anywhere.
\<close>

definition deployed_create :: "env \<Rightarrow> db \<Rightarrow> json \<Rightarrow> response \<times> db" where
  "deployed_create = post_permissive"

section \<open>Reading a payload and a stored document side by side\<close>

text \<open>The four result sequences, in the order of \<open>requiredArrays\<close>.\<close>

definition submitted_sequences :: "json \<Rightarrow> json list" where
  "submitted_sequences body = map (opt_get (get body ''results'')) requiredArrays"

definition stored_sequences :: "document \<Rightarrow> json list" where
  "stored_sequences doc =
     [maleComputer (results (content doc)), femaleSkincare (results (content doc)),
      femaleComputer (results (content doc)), maleSkincare (results (content doc))]"











section \<open>More sample payloads\<close>

text \<open>One sequence with entries that are not positive numbers; the other three absent.\<close>

definition payload_with_bad_times :: json where
  "payload_with_bad_times =
     JObj [(''userId'', JStr ''u1''),
           (''results'', JObj [(''maleComputer'',
               JArr [JNum (NFin 500), JNum (NFin (- 3)), JStr ''x'', JNum (NFin 0), JNum (NFin 620)])])]"



text \<open>A truthy \<open>userId\<close>, and a \<open>maleComputer\<close> that is a string.\<close>

definition payload_results_not_array :: json where
  "payload_results_not_array =
     JObj [(''userId'', JStr ''u1''),
           (''results'', JObj [(''maleComputer'', JStr ''500'')])]"




text \<open>
  Two networks: one where both probes pass and the create is answered 409, one where the
  service does not answer the health probe.
\<close>

definition conflict_client :: client_env where
  "conflict_client =
     sample_client (Response 200 ''OK'' ''{}'') (Response 200 ''OK'' ''{}'')
       (Response 409 ''Conflict'' ''{}'')"

definition unreachable_client :: client_env where
  "unreachable_client =
     sample_client (NetworkError ''Failed to fetch'') (Response 200 ''OK'' ''{}'')
       (Response 201 ''Created'' ''{}'')"

section \<open>Basic facts\<close>

lemma bindE_Inr_iff: "bindE m f = Inr y \<longleftrightarrow> (\<exists>x. m = Inr x \<and> f x = Inr y)"
  by (cases m) (simp_all add: bindE_def)

lemma bindE_simps [simp]: "bindE (Inl e) f = Inl e" "bindE (Inr x) f = f x"
  by (simp_all add: bindE_def)

lemma first_non_array_None:
  "first_non_array r ns = None \<longleftrightarrow> (\<forall>n \<in> set ns. isArray (get r n))"
  by (induction ns) auto

lemma failure_sel [simp]:
  "status (failure st c) = st" "success (failure st c) = False"
  "error (failure st c) = Some c" "data (failure st c) = NoData"
  by (simp_all add: failure_def)

lemma created_sel [simp]:
  "status (created d) = 201" "success (created d) = True" "error (created d) = None"
  by (simp_all add: created_def)

lemma catch_strict_codes [simp]:
  "error (catch_strict e) \<noteq> Some ''MISSING_USER_ID''"
  "error (catch_strict e) \<noteq> Some ''MISSING_RESULTS''"
  "error (catch_strict e) \<noteq> Some ''MISSING_ANALYSIS''"
  "error (catch_strict e) \<noteq> Some ''INVALID_RESULTS_STRUCTURE''"
  by (simp_all add: catch_strict_def)

lemma catch_permissive_codes [simp]:
  "error (catch_permissive e) \<noteq> Some ''MISSING_USER_ID''"
  "error (catch_permissive e) \<noteq> Some ''MISSING_RESULTS''"
  "error (catch_permissive e) \<noteq> Some ''MISSING_ANALYSIS''"
  "error (catch_permissive e) \<noteq> Some ''INVALID_RESULTS_STRUCTURE''"
  "error (catch_permissive e) \<noteq> Some ''DATABASE_NOT_CONNECTED''"
  by (simp_all add: catch_permissive_def)

section \<open>The steps of a create\<close>

lemma cast_path_typed: "typed v \<Longrightarrow> cast_path typed c v = Inr v"
  by (simp add: cast_path_def)


lemma positive_time_is_number: "positive_time x \<Longrightarrow> is_number x"
  by (cases x rule: positive_time.cases) auto

lemma number_array_filter: "number_array (JArr (filter positive_time xs))"
  by (simp add: list_all_iff positive_time_is_number)

lemma filter_times_Inr_iff:
  "filter_times v = Inr r \<longleftrightarrow>
     (isArray v \<or> \<not> truthy v) \<and> r = JArr (filter positive_time (items v))"
  by (cases v) (auto simp: filter_times_def js_or_def)

lemma prepare_permissive_Inr:
  assumes "prepare_permissive E body = Inr d"
  shows "userId d = get body ''userId''"
    and "filter_times (opt_get (get body ''results'') ''maleComputer'') = Inr (maleComputer (results d))"
    and "filter_times (opt_get (get body ''results'') ''femaleSkincare'') = Inr (femaleSkincare (results d))"
    and "filter_times (opt_get (get body ''results'') ''femaleComputer'') = Inr (femaleComputer (results d))"
    and "filter_times (opt_get (get body ''results'') ''maleSkincare'') = Inr (maleSkincare (results d))"
    and "number_or_zero E (opt_get (get body ''analysis'') ''dScore'') = Inr (dScore (analysis d))"
    and "number_or_zero E (opt_get (get body ''analysis'') ''d1Score'') = Inr (d1Score (analysis d))"
    and "number_or_zero E (opt_get (get body ''analysis'') ''d2Score'') = Inr (d2Score (analysis d))"
    and "number_or_zero E (opt_get (get body ''analysis'') ''d3Score'') = Inr (d3Score (analysis d))"
    and "number_or_zero E (opt_get (get body ''analysis'') ''d4Score'') = Inr (d4Score (analysis d))"
    and "biasType (analysis d) = js_or (opt_get (get body ''analysis'') ''biasType'') JNull"
    and "biasLevel (analysis d) =
           js_or (opt_get (get body ''analysis'') ''biasLevel'') (JStr default_biasLevel)"
    and "biasDirection (analysis d) = js_or (opt_get (get body ''analysis'') ''biasDirection'') (JStr [])"
    and "date_or_now E (get body ''testDate'') = Inr (testDate d)"
  using assms
  by (auto simp: prepare_permissive_def Let_def bindE_Inr_iff)


lemma mongoose_document_Inr:
  assumes "mongoose_document E d = Inr d'"
  shows "cast_path required_string (cast_string E) (userId d) = Inr (userId d')"
    and "cast_path is_date (cast_date E) (testDate d) = Inr (testDate d')"
    and "cast_path number_array (cast_numbers E) (maleComputer (results d))
           = Inr (maleComputer (results d'))"
    and "cast_path number_array (cast_numbers E) (femaleSkincare (results d))
           = Inr (femaleSkincare (results d'))"
    and "cast_path number_array (cast_numbers E) (femaleComputer (results d))
           = Inr (femaleComputer (results d'))"
    and "cast_path number_array (cast_numbers E) (maleSkincare (results d))
           = Inr (maleSkincare (results d'))"
    and "cast_path not_NaN (cast_number E) (dScore (analysis d)) = Inr (dScore (analysis d'))"
    and "cast_path nullable_string (cast_string E) (biasType (analysis d))
           = Inr (biasType (analysis d'))"
    and "cast_path is_string (cast_string E) (biasLevel (analysis d))
           = Inr (biasLevel (analysis d'))"
    and "cast_path is_string (cast_string E) (biasDirection (analysis d))
           = Inr (biasDirection (analysis d'))"
    and "cast_path not_NaN (cast_number E) (d1Score (analysis d)) = Inr (d1Score (analysis d'))"
    and "cast_path not_NaN (cast_number E) (d2Score (analysis d)) = Inr (d2Score (analysis d'))"
    and "cast_path not_NaN (cast_number E) (d3Score (analysis d)) = Inr (d3Score (analysis d'))"
    and "cast_path not_NaN (cast_number E) (d4Score (analysis d)) = Inr (d4Score (analysis d'))"
    and "surveyResponses d' = surveyResponses d" and "deviceInfo d' = deviceInfo d"
  using assms
  by (auto simp: mongoose_document_def bindE_Inr_iff)


lemma status_catch_permissive [simp]: "status (catch_permissive e) \<noteq> 201"
  by (simp add: catch_permissive_def)

lemma status_catch_strict [simp]: "status (catch_strict e) \<noteq> 201"
  by (simp add: catch_strict_def)

lemma save_Inr_iff:
  "save E coll d = Inr (doc, coll') \<longleftrightarrow>
     (\<exists>d'. mongoose_document E d = Inr d' \<and> save_fault E = None \<and>
        new_id E \<notin> set (map oid coll) \<and> doc = stored E d' \<and> coll' = coll @ [doc])"
  by (auto simp: save_def bindE_Inr_iff split: option.splits)

lemma post_permissive_cases:
  assumes "post_permissive E coll body = (r, coll')"
  shows "(coll' = coll \<and> status r \<noteq> 201) \<or>
         (\<exists>d d'. readyState E = 1 \<and> \<not> nullish body \<and> truthy (get body ''userId'') \<and>
            prepare_permissive E body = Inr d \<and> mongoose_document E d = Inr d' \<and>
            save_fault E = None \<and> new_id E \<notin> set (map oid coll) \<and>
            coll' = coll @ [stored E d'] \<and> r = created (stored E d'))"
  using assms
  by (auto simp: post_permissive_def post_permissive_try_def bindE_Inr_iff save_Inr_iff
      split: if_splits sum.splits prod.splits)


section \<open>Strict create: the validation failures\<close>

lemma post_strict_error_invalid:
  assumes "error (fst (post_strict E coll body)) = Some ''INVALID_RESULTS_STRUCTURE''"
  shows "\<exists>n \<in> set requiredArrays. \<not> isArray (get (get body ''results'') n)"
proof (rule ccontr)
  assume "\<not> ?thesis"
  then have none: "first_non_array (get body ''results'') requiredArrays = None"
    by (simp add: first_non_array_None)
  from assms none show False
    by (auto simp: post_strict_def post_strict_try_def split: if_splits sum.splits prod.splits)
qed

text \<open>
  C1, as the code has it. The body is what the JSON body parser delivers, an object or
  an array, never null. The strict handler answers 400, and leaves the collection as it
  was, with \<open>MISSING_USER_ID\<close> when \<open>userId\<close> is absent or falsy; with
  \<open>MISSING_RESULTS\<close> when \<open>userId\<close> is there and \<open>results\<close> is absent or falsy;
  with \<open>MISSING_ANALYSIS\<close> when both are there and \<open>analysis\<close> is absent or falsy;
  and with \<open>INVALID_RESULTS_STRUCTURE\<close> when all three are there and one of
  \<open>maleComputer\<close>, \<open>femaleSkincare\<close>, \<open>femaleComputer\<close>, \<open>maleSkincare\<close> is not
  an array, which includes a field that is absent. \<open>INVALID_RESULTS_STRUCTURE\<close> is
  answered only when one of the four is not an array.
\<close>

theorem strict_create_rejections:
  assumes "\<not> nullish body"
  shows "(\<not> truthy (get body ''userId'') \<longrightarrow>
            post_strict E coll body = (failure 400 ''MISSING_USER_ID'', coll))
       \<and> (truthy (get body ''userId'') \<and> \<not> truthy (get body ''results'') \<longrightarrow>
            post_strict E coll body = (failure 400 ''MISSING_RESULTS'', coll))
       \<and> (truthy (get body ''userId'') \<and> truthy (get body ''results'') \<and>
            \<not> truthy (get body ''analysis'') \<longrightarrow>
            post_strict E coll body = (failure 400 ''MISSING_ANALYSIS'', coll))
       \<and> (truthy (get body ''userId'') \<and> truthy (get body ''results'') \<and>
            truthy (get body ''analysis'') \<and>
            (\<exists>n \<in> set requiredArrays. \<not> isArray (get (get body ''results'') n)) \<longrightarrow>
            post_strict E coll body = (failure 400 ''INVALID_RESULTS_STRUCTURE'', coll))
       \<and> (error (fst (post_strict E coll body)) = Some ''INVALID_RESULTS_STRUCTURE'' \<longrightarrow>
            (\<exists>n \<in> set requiredArrays. \<not> isArray (get (get body ''results'') n)))"
  using assms post_strict_error_invalid [of E coll body]
  by (auto simp: post_strict_def post_strict_try_def first_non_array_None split: option.splits)

theorem strict_create_rejections_witness:
  "post_strict sample_env [] (JObj []) = (failure 400 ''MISSING_USER_ID'', [])
   \<and> post_strict sample_env [] (JObj [(''userId'', JStr ''u1'')])
       = (failure 400 ''MISSING_RESULTS'', [])
   \<and> post_strict sample_env [] (JObj [(''userId'', JStr ''u1''), (''results'', JObj [])])
       = (failure 400 ''MISSING_ANALYSIS'', [])
   \<and> post_strict sample_env [] payload_without_maleSkincare
       = (failure 400 ''INVALID_RESULTS_STRUCTURE'', [])"
proof -
  have a: "\<not> nullish (JObj [])"
    and b: "\<not> nullish (JObj [(''userId'', JStr ''u1'')])"
    and c: "\<not> nullish (JObj [(''userId'', JStr ''u1''), (''results'', JObj [])])"
    and d: "\<not> nullish payload_without_maleSkincare"
    by (simp_all add: payload_without_maleSkincare_def)
  show ?thesis
    using strict_create_rejections [OF a, of sample_env "[]"]
      strict_create_rejections [OF b, of sample_env "[]"]
      strict_create_rejections [OF c, of sample_env "[]"]
      strict_create_rejections [OF d, of sample_env "[]"]
    by (simp add: payload_without_maleSkincare_def requiredArrays_def)
qed

text \<open>
  C1 as stated fails: it accepts a field that is absent from \<open>results\<close>. In the sample
  payload the three fields that are present are arrays and \<open>maleSkincare\<close> is absent;
  the strict handler rejects it with \<open>INVALID_RESULTS_STRUCTURE\<close>.
\<close>

theorem strict_absent_field_counterexample:
  "get (get payload_without_maleSkincare ''results'') ''maleSkincare'' = JUndefined
   \<and> isArray (get (get payload_without_maleSkincare ''results'') ''maleComputer'')
   \<and> isArray (get (get payload_without_maleSkincare ''results'') ''femaleSkincare'')
   \<and> isArray (get (get payload_without_maleSkincare ''results'') ''femaleComputer'')
   \<and> post_strict sample_env [] payload_without_maleSkincare
       = (failure 400 ''INVALID_RESULTS_STRUCTURE'', [])"
  by (simp add: payload_without_maleSkincare_def post_strict_def post_strict_try_def
      requiredArrays_def)

section \<open>Permissive create: the connection gate\<close>

text \<open>
  C10. The permissive handler tests the connection state before it looks at the body:
  whenever \<open>readyState\<close> is not 1 it answers 503 \<open>DATABASE_NOT_CONNECTED\<close> and leaves
  the collection as it was, whatever the body is (a body without \<open>userId\<close> included);
  a response with the code \<open>MISSING_USER_ID\<close> comes only with \<open>readyState\<close> 1.
\<close>

theorem permissive_connection_gate:
  "(readyState E \<noteq> 1 \<longrightarrow>
      post_permissive E coll body = (failure 503 ''DATABASE_NOT_CONNECTED'', coll))
   \<and> (error (fst (post_permissive E coll body)) = Some ''MISSING_USER_ID'' \<longrightarrow>
      readyState E = 1)"
  by (auto simp: post_permissive_def post_permissive_try_def split: sum.splits prod.splits)

theorem permissive_connection_gate_witness:
  "post_permissive (sample_env\<lparr>readyState := 0\<rparr>) [] (JObj [])
     = (failure 503 ''DATABASE_NOT_CONNECTED'', [])
   \<and> error (fst (post_permissive sample_env [] (JObj []))) = Some ''MISSING_USER_ID''
   \<and> readyState sample_env = 1"
proof -
  have a: "readyState (sample_env\<lparr>readyState := 0\<rparr>) \<noteq> 1"
    by (simp add: sample_env_def)
  have b: "error (fst (post_permissive sample_env [] (JObj []))) = Some ''MISSING_USER_ID''"
    by (simp add: post_permissive_def post_permissive_try_def sample_env_def)
  show ?thesis
    using permissive_connection_gate [of "sample_env\<lparr>readyState := 0\<rparr>" "[]" "JObj []"]
      permissive_connection_gate [of sample_env "[]" "JObj []"] a b
    by simp
qed

section \<open>Permissive create: the result sequences are filtered\<close>

lemma cast_path_filtered:
  "cast_path number_array c (JArr (filter positive_time xs)) = Inr (JArr (filter positive_time xs))"
  by (rule cast_path_typed) (rule number_array_filter)

lemma stored_results_filtered:
  assumes p: "prepare_permissive E body = Inr d" and m: "mongoose_document E d = Inr d'"
  shows "list_all2 (\<lambda>s v. s = JArr (filter positive_time (items v)) \<and>
                         length (items s) \<le> length (items v) \<and>
                         (\<not> isArray v \<longrightarrow> \<not> truthy v \<and> s = JArr []))
           (stored_sequences (stored E d')) (submitted_sequences body)"
proof -
  note f = prepare_permissive_Inr(2-5) [OF p, unfolded filter_times_Inr_iff]
  have "maleComputer (results d') = maleComputer (results d)"
       "femaleSkincare (results d') = femaleSkincare (results d)"
       "femaleComputer (results d') = femaleComputer (results d)"
       "maleSkincare (results d') = maleSkincare (results d)"
    using mongoose_document_Inr(3-6) [OF m] f
    by (simp_all add: cast_path_filtered)
  moreover have "\<not> isArray v \<Longrightarrow> items v = []" for v
    by (cases v) simp_all
  ultimately show ?thesis
    using f
    by (auto simp: stored_sequences_def submitted_sequences_def requiredArrays_def stored_def)
qed

text \<open>
  C3. Whatever the body, the permissive handler either stores nothing or adds one
  document, and then each of the four stored sequences is the submitted one with exactly
  the entries kept that are numbers greater than zero. So the stored sequence is no
  longer than the submitted one, and a sequence that is missing (or any falsy value in
  its place) is stored as the empty sequence.
\<close>

theorem permissive_results_filtered:
  assumes "post_permissive E coll body = (r, coll')"
  shows "coll' = coll \<or>
         (\<exists>doc. coll' = coll @ [doc] \<and>
            list_all2 (\<lambda>s v. s = JArr (filter positive_time (items v)) \<and>
                             length (items s) \<le> length (items v) \<and>
                             (\<not> isArray v \<longrightarrow> \<not> truthy v \<and> s = JArr []))
              (stored_sequences doc) (submitted_sequences body))"
  using post_permissive_cases [OF assms] stored_results_filtered by blast

theorem permissive_results_filtered_witness:
  "snd (post_permissive sample_env [] payload_with_bad_times) \<noteq> []
   \<and> (\<exists>doc. snd (post_permissive sample_env [] payload_with_bad_times) = [doc] \<and>
          stored_sequences doc
            = [JArr [JNum (NFin 500), JNum (NFin 620)], JArr [], JArr [], JArr []])"
proof -
  have ne: "snd (post_permissive sample_env [] payload_with_bad_times) \<noteq> []"
    by code_simp
  have sub: "submitted_sequences payload_with_bad_times =
     [JArr [JNum (NFin 500), JNum (NFin (- 3)), JStr ''x'', JNum (NFin 0), JNum (NFin 620)],
      JUndefined, JUndefined, JUndefined]"
    by (simp add: submitted_sequences_def payload_with_bad_times_def requiredArrays_def
        opt_get_def)
  from permissive_results_filtered [of sample_env "[]" payload_with_bad_times
      "fst (post_permissive sample_env [] payload_with_bad_times)"
      "snd (post_permissive sample_env [] payload_with_bad_times)"] ne
  obtain doc where d: "snd (post_permissive sample_env [] payload_with_bad_times) = [doc]"
    and l: "list_all2 (\<lambda>s v. s = JArr (filter positive_time (items v)) \<and>
                             length (items s) \<le> length (items v) \<and>
                             (\<not> isArray v \<longrightarrow> \<not> truthy v \<and> s = JArr []))
              (stored_sequences doc) (submitted_sequences payload_with_bad_times)"
    by auto
  from l have "stored_sequences doc
      = [JArr [JNum (NFin 500), JNum (NFin 620)], JArr [], JArr [], JArr []]"
    unfolding sub by (simp add: stored_sequences_def)
  with ne d show ?thesis by simp
qed

section \<open>The defaults of the analysis\<close>









section \<open>The deployed endpoint and the shape of the results\<close>

text \<open>The deployed endpoint never answers with one of the strict variant's three codes.\<close>

lemma deployed_create_codes:
  "error (fst (deployed_create E coll body)) \<notin>
     {Some ''MISSING_RESULTS'', Some ''MISSING_ANALYSIS'', Some ''INVALID_RESULTS_STRUCTURE''}"
  by (auto simp: deployed_create_def post_permissive_def post_permissive_try_def
      split: sum.splits prod.splits)

text \<open>
  C9 at a payload with a truthy \<open>userId\<close> whose \<open>results.maleComputer\<close> is a string.
  The store is connected and raises no error, yet the payload is not accepted: the
  string has no \<open>filter\<close> method, the TypeError reaches the \<open>catch\<close> block, and the
  answer is 500 \<open>ATLAS_SAVE_ERROR\<close> with nothing stored.
\<close>

theorem deployed_create_type_error:
  "readyState sample_env = 1 \<and> save_fault sample_env = None
   \<and> truthy (get payload_results_not_array ''userId'')
   \<and> deployed_create sample_env [] payload_results_not_array
       = (failure 500 ''ATLAS_SAVE_ERROR'', [])"
  by code_simp

section \<open>Create, then get by id\<close>











section \<open>Get by id\<close>





section \<open>Counting\<close>







section \<open>Listing\<close>



lemma page_count_empty: "pos_int l \<Longrightarrow> page_count 0 l = NFin 0"
  by (simp add: page_count_def)



section \<open>The submission client: probes, then the create\<close>

lemma probe_messages_differ:
  "save_failed_prefix @ api_unreachable_message \<noteq> save_failed_prefix @ atlas_unavailable_message"
  by (simp add: api_unreachable_message_def atlas_unavailable_message_def)

lemma status_prefix_start:
  "\<exists>r. status_prefix st @ m =
     (if st = 400 then CHR 0xE8 # r
      else if st = 409 then CHR 0xE9 # r
      else if st = 503 then ''Atlas '' @ CHR 0xE9 # r
      else ''Atlas '' @ CHR 0xE5 # r)"
  by (simp add: status_prefix_def validation_prefix_def duplicate_prefix_def
      unavailable_prefix_def other_prefix_def)

lemma status_messages_differ:
  assumes "status_kind st \<noteq> status_kind st'"
  shows "save_failed_prefix @ status_prefix st @ m \<noteq> save_failed_prefix @ status_prefix st' @ m'"
proof -
  from status_prefix_start [of st m] obtain r where
    r: "status_prefix st @ m =
     (if st = 400 then CHR 0xE8 # r
      else if st = 409 then CHR 0xE9 # r
      else if st = 503 then ''Atlas '' @ CHR 0xE9 # r
      else ''Atlas '' @ CHR 0xE5 # r)" ..
  from status_prefix_start [of st' m'] obtain r' where
    r': "status_prefix st' @ m' =
     (if st' = 400 then CHR 0xE8 # r'
      else if st' = 409 then CHR 0xE9 # r'
      else if st' = 503 then ''Atlas '' @ CHR 0xE9 # r'
      else ''Atlas '' @ CHR 0xE5 # r')" ..
  from assms have "status_prefix st @ m \<noteq> status_prefix st' @ m'"
    unfolding r r' by (auto simp: status_kind_def split: if_splits)
  then show ?thesis by simp
qed

lemma status_error_message:
  assumes "JSON_parse C body \<noteq> Some JNull" "JSON_parse C body \<noteq> Some JUndefined"
  shows "\<exists>m. status_error C st stt body = ThrownError (status_prefix st @ m)"
proof -
  have "\<not> nullish (case JSON_parse C body of Some v \<Rightarrow> v
                       | None \<Rightarrow> JObj [(''message'', JStr body)])"
    using assms by (cases "JSON_parse C body"; simp) (case_tac a; simp)
  then show ?thesis
    by (simp add: status_error_def Let_def status_prefix_def)
qed

text \<open>
  C8, as the code has it. Once the payload is assembled, the client issues the health
  probe first, the storage probe only when the health probe returned true, and the
  create only when both returned true, in that order and each at most once. A failed
  health probe and a failed storage probe end in two different messages. A create that
  is answered with a non-success status, and a body that does not parse to null, ends in
  a message that starts in its own way for 400, for 409 and for 503, and in a generic
  way that carries the status for any other; the four kinds never coincide.
\<close>

theorem submit_sequence:
  assumes p: "build_payload C (current_userId C) d = Inr payload"
  shows "requests (saveTestResults C d)
           = (if \<not> checkApiHealth C then [GET_health]
              else if \<not> testAtlasConnection C then [GET_health, GET_test_atlas]
              else [GET_health, GET_test_atlas, POST_test_results payload])
       \<and> distinct (requests (saveTestResults C d))
       \<and> (\<not> checkApiHealth C \<longrightarrow>
            outcome (saveTestResults C d) = Inl (save_failed_prefix @ api_unreachable_message))
       \<and> (checkApiHealth C \<and> \<not> testAtlasConnection C \<longrightarrow>
            outcome (saveTestResults C d) = Inl (save_failed_prefix @ atlas_unavailable_message))
       \<and> save_failed_prefix @ api_unreachable_message
           \<noteq> save_failed_prefix @ atlas_unavailable_message
       \<and> (\<forall>st stt body.
            checkApiHealth C \<and> testAtlasConnection C \<and>
            fetch C (POST_test_results payload) = Response st stt body \<and> \<not> response_ok st \<and>
            JSON_parse C body \<noteq> Some JNull \<and> JSON_parse C body \<noteq> Some JUndefined \<longrightarrow>
            (\<exists>m. outcome (saveTestResults C d)
                   = Inl (save_failed_prefix @ status_prefix st @ m)))
       \<and> (\<forall>st st' m m'. status_kind st \<noteq> status_kind st' \<longrightarrow>
            save_failed_prefix @ status_prefix st @ m
              \<noteq> save_failed_prefix @ status_prefix st' @ m')"
proof -
  have req: "requests (saveTestResults C d)
           = (if \<not> checkApiHealth C then [GET_health]
              else if \<not> testAtlasConnection C then [GET_health, GET_test_atlas]
              else [GET_health, GET_test_atlas, POST_test_results payload])"
    by (simp add: saveTestResults_def Let_def p submit_steps_def split: sum.splits)
  have h: "outcome (saveTestResults C d) = Inl (save_failed_prefix @ api_unreachable_message)"
    if "\<not> checkApiHealth C"
    using that by (simp add: saveTestResults_def Let_def p submit_steps_def)
  have a: "outcome (saveTestResults C d) = Inl (save_failed_prefix @ atlas_unavailable_message)"
    if "checkApiHealth C" "\<not> testAtlasConnection C"
    using that by (simp add: saveTestResults_def Let_def p submit_steps_def)
  have s: "\<exists>m. outcome (saveTestResults C d) = Inl (save_failed_prefix @ status_prefix st @ m)"
    if "checkApiHealth C" "testAtlasConnection C"
      "fetch C (POST_test_results payload) = Response st stt body" "\<not> response_ok st"
      "JSON_parse C body \<noteq> Some JNull" "JSON_parse C body \<noteq> Some JUndefined"
    for st stt body
  proof -
    from status_error_message [OF that(5,6), of st stt] obtain m where
      "status_error C st stt body = ThrownError (status_prefix st @ m)" ..
    with that(1-4) show ?thesis
      by (simp add: saveTestResults_def Let_def p submit_steps_def)
  qed
  from req have dis: "distinct (requests (saveTestResults C d))"
    by simp
  from req dis h a s probe_messages_differ status_messages_differ show ?thesis
    by blast
qed

theorem submit_sequence_witness:
  "length (requests (saveTestResults conflict_client sample_data)) = 3
   \<and> take 2 (requests (saveTestResults conflict_client sample_data))
       = [GET_health, GET_test_atlas]
   \<and> (\<exists>m. outcome (saveTestResults conflict_client sample_data)
            = Inl (save_failed_prefix @ duplicate_prefix @ m))"
proof -
  obtain payload where
    p: "build_payload conflict_client (current_userId conflict_client) sample_data = Inr payload"
    by (simp add: build_payload_def sample_data_def conflict_client_def sample_client_def
        current_userId_def)
  have h: "checkApiHealth conflict_client" "testAtlasConnection conflict_client"
    "fetch conflict_client (POST_test_results payload) = Response 409 ''Conflict'' ''{}''"
    "\<not> response_ok 409"
    "JSON_parse conflict_client ''{}'' \<noteq> Some JNull"
    "JSON_parse conflict_client ''{}'' \<noteq> Some JUndefined"
    by (simp_all add: checkApiHealth_def testAtlasConnection_def conflict_client_def
        sample_client_def response_ok_def)
  from submit_sequence [OF p] h
  have "requests (saveTestResults conflict_client sample_data)
          = [GET_health, GET_test_atlas, POST_test_results payload]"
    and "\<exists>m. outcome (saveTestResults conflict_client sample_data)
            = Inl (save_failed_prefix @ status_prefix 409 @ m)"
    by auto
  then show ?thesis
    by (simp add: status_prefix_def)
qed

text \<open>
  C8 as stated fails: it has each probe attempted exactly once. When the health probe
  fails the storage probe is not attempted at all.
\<close>

theorem storage_probe_skipped_counterexample:
  "requests (saveTestResults unreachable_client sample_data) = [GET_health]
   \<and> count_list (requests (saveTestResults unreachable_client sample_data)) GET_test_atlas = 0"
  by code_simp

end
